theory Spec2Isabelle
  imports Complex_Main
begin

section \<open>The salary calculator of calculator.py\<close>

text \<open>
  The program reads (employee, income) lines, withholds social insurance on a clamped
  base, applies the quick-subtractor income-tax table and formats the amounts with two
  decimals. Incomes are Python integers (\<open>int\<close>). Every other amount is a Python
  float in the source; here it is an exact rational (\<open>rat\<close>), so the theorems below
  speak about the arithmetic the program writes down, not about IEEE doubles: their
  rounding error and their range (an integer too large for a double) are not modelled.
\<close>

subsection \<open>Errors\<close>

text \<open>
  \<open>ParameterError\<close> is the path \<^verbatim>\<open>print('Parameter Error'); exit()\<close>.
  \<open>UnpackValueError\<close> is the uncaught \<^verbatim>\<open>ValueError\<close> of the tuple assignment
  \<^verbatim>\<open>employee_id, income_string = line.strip().split(',')\<close>.
  \<open>OverflowError\<close> is the uncaught \<^verbatim>\<open>OverflowError\<close> of an arithmetic operation
  between an \<^verbatim>\<open>int\<close> too large for a double and a \<^verbatim>\<open>float\<close>.
\<close>

datatype error = ParameterError | UnpackValueError | OverflowError

subsection \<open>The tax table\<close>

record IncomeTaxQuickLookupItem =
  start_point :: rat
  tax_rate :: rat
  quick_subtractor :: rat

definition IncomeTaxQuickLookupItem_new :: "rat \<Rightarrow> rat \<Rightarrow> rat \<Rightarrow> IncomeTaxQuickLookupItem" where
  "IncomeTaxQuickLookupItem_new s r q = \<lparr>start_point = s, tax_rate = r, quick_subtractor = q\<rparr>"

definition INCOME_TAX_START_POINT :: rat where
  "INCOME_TAX_START_POINT = 3500"

definition INCOME_TAX_QUICK_LOOKUP_TABLE :: "IncomeTaxQuickLookupItem list" where
  "INCOME_TAX_QUICK_LOOKUP_TABLE =
    [IncomeTaxQuickLookupItem_new 80000 (45 / 100) 13505,
     IncomeTaxQuickLookupItem_new 55000 (35 / 100) 5505,
     IncomeTaxQuickLookupItem_new 35000 (30 / 100) 2755,
     IncomeTaxQuickLookupItem_new 9000 (25 / 100) 1005,
     IncomeTaxQuickLookupItem_new 4500 (20 / 100) 555,
     IncomeTaxQuickLookupItem_new 1500 (1 / 10) 105,
     IncomeTaxQuickLookupItem_new 0 (3 / 100) 0]"

subsection \<open>The configuration\<close>

text \<open>
  \<open>Config.config\<close> is the selected section of the configuration file: a dictionary from
  keys to strings. \<open>_get_config\<close> applies \<^verbatim>\<open>float\<close> to the entry; an entry is kept
  here as what \<^verbatim>\<open>float\<close> makes of it: a number, or \<open>NonNumeric\<close> when
  \<^verbatim>\<open>float\<close> raises \<^verbatim>\<open>ValueError\<close>. A missing key is \<^verbatim>\<open>KeyError\<close>. Both end in
  \<open>ParameterError\<close>.
\<close>

datatype config_entry = Numeric rat | NonNumeric

type_synonym config = "string \<rightharpoonup> config_entry"

definition get_config :: "config \<Rightarrow> string \<Rightarrow> error + rat" where
  "get_config cfg key =
     (case cfg key of
        None \<Rightarrow> Inl ParameterError
      | Some NonNumeric \<Rightarrow> Inl ParameterError
      | Some (Numeric v) \<Rightarrow> Inr v)"

definition social_insurance_baseline_low :: "config \<Rightarrow> error + rat" where
  "social_insurance_baseline_low cfg = get_config cfg ''JiShuL''"

definition social_insurance_baseline_high :: "config \<Rightarrow> error + rat" where
  "social_insurance_baseline_high cfg = get_config cfg ''JiShuH''"

text \<open>
  The list handed to \<^verbatim>\<open>sum\<close> is built left to right, so the first key that fails
  ends the evaluation.
\<close>

fun get_configs :: "config \<Rightarrow> string list \<Rightarrow> error + rat list" where
  "get_configs cfg [] = Inr []"
| "get_configs cfg (k # ks) =
     (case get_config cfg k of
        Inl e \<Rightarrow> Inl e
      | Inr v \<Rightarrow> (case get_configs cfg ks of Inl e \<Rightarrow> Inl e | Inr vs \<Rightarrow> Inr (v # vs)))"

definition rate_keys :: "string list" where
  "rate_keys = [''YangLao'', ''YiLiao'', ''ShiYe'', ''GongShang'', ''ShengYu'', ''GongJiJin'']"

definition social_insurance_total_rate :: "config \<Rightarrow> error + rat" where
  "social_insurance_total_rate cfg =
     (case get_configs cfg rate_keys of Inl e \<Rightarrow> Inl e | Inr vs \<Rightarrow> Inr (sum_list vs))"

subsection \<open>Social insurance\<close>

text \<open>
  Each \<open>config.\<dots>\<close> in the source is a property that runs \<open>_get_config\<close> again, so the
  order of the reads is the order of the errors: the floor first, the ceiling only when
  the income is not below the floor, the rate last.
\<close>

definition calc_social_insurance_money :: "config \<Rightarrow> int \<Rightarrow> error + rat" where
  "calc_social_insurance_money cfg income =
     (case social_insurance_baseline_low cfg of
        Inl e \<Rightarrow> Inl e
      | Inr low \<Rightarrow>
          if of_int income < low then
            (case social_insurance_baseline_low cfg of
               Inl e \<Rightarrow> Inl e
             | Inr low' \<Rightarrow>
                 (case social_insurance_total_rate cfg of
                    Inl e \<Rightarrow> Inl e
                  | Inr rate \<Rightarrow> Inr (low' * rate)))
          else
            (case social_insurance_baseline_high cfg of
               Inl e \<Rightarrow> Inl e
             | Inr high \<Rightarrow>
                 if of_int income > high then
                   (case social_insurance_baseline_high cfg of
                      Inl e \<Rightarrow> Inl e
                    | Inr high' \<Rightarrow>
                        (case social_insurance_total_rate cfg of
                           Inl e \<Rightarrow> Inl e
                         | Inr rate \<Rightarrow> Inr (high' * rate)))
                 else
                   (case social_insurance_total_rate cfg of
                      Inl e \<Rightarrow> Inl e
                    | Inr rate \<Rightarrow> Inr (of_int income * rate))))"

text \<open>The clamp of the specification (section 4.2), written from its words.\<close>

definition clamp :: "rat \<Rightarrow> rat \<Rightarrow> rat \<Rightarrow> rat" where
  "clamp x lo hi = max lo (min x hi)"

subsection \<open>Formatting with two decimals\<close>

text \<open>
  \<^verbatim>\<open>'{:.2f}'.format(x)\<close>: the sign, the integer digits, a point and two decimals of
  the value rounded to the nearest hundredth, ties to the even neighbour. A negative
  value keeps its sign when it rounds to zero.
\<close>

definition round_half_even :: "rat \<Rightarrow> int" where
  "round_half_even q =
     (let f = \<lfloor>q\<rfloor>; d = q - of_int f
      in if d < 1 / 2 then f
         else if 1 / 2 < d then f + 1
         else if even f then f else f + 1)"

definition digit_char :: "nat \<Rightarrow> char" where
  "digit_char n = ''0123456789'' ! (n mod 10)"

fun str_nat :: "nat \<Rightarrow> string" where
  "str_nat n = (if n < 10 then [digit_char n] else str_nat (n div 10) @ [digit_char n])"

declare str_nat.simps [simp del]

definition format_2f :: "rat \<Rightarrow> string" where
  "format_2f x =
     (let n = nat (round_half_even (\<bar>x\<bar> * 100))
      in (if x < 0 then ''-'' else []) @ str_nat (n div 100) @ ''.'' @
         [digit_char (n div 10), digit_char n])"

subsection \<open>Income tax\<close>

text \<open>
  The \<^verbatim>\<open>for item in INCOME_TAX_QUICK_LOOKUP_TABLE\<close> loop of
  \<open>calc_income_tax_and_remain\<close>: the first item whose \<open>start_point\<close> is strictly below
  the taxable part ends the loop; \<open>None\<close> is the loop running to its end.
  \<open>calc_income_tax_and_remain\<close> computes in unbounded rationals;
  \<open>calc_income_tax_and_remain_double\<close> further down adds the error of an income
  outside the range of doubles.
\<close>

fun lookup_item :: "IncomeTaxQuickLookupItem list \<Rightarrow> rat \<Rightarrow> IncomeTaxQuickLookupItem option" where
  "lookup_item [] taxable_part = None"
| "lookup_item (item # rest) taxable_part =
     (if taxable_part > start_point item then Some item else lookup_item rest taxable_part)"

definition calc_income_tax_and_remain :: "config \<Rightarrow> int \<Rightarrow> error + string \<times> string" where
  "calc_income_tax_and_remain cfg income =
     (case calc_social_insurance_money cfg income of
        Inl e \<Rightarrow> Inl e
      | Inr social_insurance_money \<Rightarrow>
          (let real_income = of_int income - social_insurance_money;
               taxable_part = real_income - INCOME_TAX_START_POINT
           in case lookup_item INCOME_TAX_QUICK_LOOKUP_TABLE taxable_part of
                Some item \<Rightarrow>
                  (let tax = taxable_part * tax_rate item - quick_subtractor item
                   in Inr (format_2f tax, format_2f (real_income - tax)))
              | None \<Rightarrow> Inr (''0.00'', format_2f real_income)))"

text \<open>
  The same computation before formatting: the pair (tax, remain) as numbers, the tax
  being 0 when no item matches. \<open>calc_income_tax_and_remain\<close> is its formatted image
  (lemma \<open>calc_income_tax_and_remain_unrounded\<close>).
\<close>

definition quick_tax :: "IncomeTaxQuickLookupItem list \<Rightarrow> rat \<Rightarrow> rat" where
  "quick_tax table taxable_part =
     (case lookup_item table taxable_part of
        Some item \<Rightarrow> taxable_part * tax_rate item - quick_subtractor item
      | None \<Rightarrow> 0)"

definition unrounded_tax_and_remain :: "config \<Rightarrow> int \<Rightarrow> error + rat \<times> rat" where
  "unrounded_tax_and_remain cfg income =
     (case calc_social_insurance_money cfg income of
        Inl e \<Rightarrow> Inl e
      | Inr social_insurance_money \<Rightarrow>
          (let real_income = of_int income - social_insurance_money;
               tax = quick_tax INCOME_TAX_QUICK_LOOKUP_TABLE (real_income - INCOME_TAX_START_POINT)
           in Inr (tax, real_income - tax)))"

subsection \<open>One record\<close>

text \<open>
  The row \<^verbatim>\<open>[employee_id, income, social_insurance_money, tax, remain, timestamp]\<close>.
  The wall clock \<^verbatim>\<open>datetime.now()\<close> is the parameter \<open>now\<close>.
\<close>

record result_row =
  row_employee_id :: string
  row_income :: int
  row_social_insurance_money :: string
  row_tax :: string
  row_remain :: string
  row_timestamp :: string

definition calculate :: "config \<Rightarrow> string \<Rightarrow> string \<Rightarrow> int \<Rightarrow> error + result_row" where
  "calculate cfg now employee_id income =
     (case calc_social_insurance_money cfg income of
        Inl e \<Rightarrow> Inl e
      | Inr m \<Rightarrow>
          (let social_insurance_money = format_2f m
           in case calc_income_tax_and_remain cfg income of
                Inl e \<Rightarrow> Inl e
              | Inr (tax, remain) \<Rightarrow>
                  Inr \<lparr>row_employee_id = employee_id, row_income = income,
                       row_social_insurance_money = social_insurance_money,
                       row_tax = tax, row_remain = remain, row_timestamp = now\<rparr>))"

subsection \<open>One record, with the range of doubles\<close>

text \<open>
  The definitions above compute in unbounded rationals. The source subtracts a float
  from the integer income (\<^verbatim>\<open>real_income = income - social_insurance_money\<close>), which
  first converts the integer to a double and raises \<^verbatim>\<open>OverflowError\<close> when it rounds
  to \<open>2 ^ 1024\<close> or more, that is from \<open>2 ^ 1024 - 2 ^ 970\<close> on in absolute value.
  Nothing catches it. The comparisons of the income with floor and ceiling are exact
  and convert nothing, and an income multiplied by the rate lies between floor and
  ceiling, which are doubles. The functions below are \<open>calc_income_tax_and_remain\<close> and
  \<open>calculate\<close> with this one error path added; rounding stays unmodelled.
\<close>

definition int_to_float :: "int \<Rightarrow> error + rat" where
  "int_to_float i = (if \<bar>i\<bar> < 2 ^ 1024 - 2 ^ 970 then Inr (of_int i) else Inl OverflowError)"

definition calc_income_tax_and_remain_double :: "config \<Rightarrow> int \<Rightarrow> error + string \<times> string" where
  "calc_income_tax_and_remain_double cfg income =
     (case calc_social_insurance_money cfg income of
        Inl e \<Rightarrow> Inl e
      | Inr social_insurance_money \<Rightarrow>
          (case int_to_float income of
             Inl e \<Rightarrow> Inl e
           | Inr income_as_float \<Rightarrow>
               (let real_income = income_as_float - social_insurance_money;
                    taxable_part = real_income - INCOME_TAX_START_POINT
                in case lookup_item INCOME_TAX_QUICK_LOOKUP_TABLE taxable_part of
                     Some item \<Rightarrow>
                       (let tax = taxable_part * tax_rate item - quick_subtractor item
                        in Inr (format_2f tax, format_2f (real_income - tax)))
                   | None \<Rightarrow> Inr (''0.00'', format_2f real_income))))"

definition calculate_double :: "config \<Rightarrow> string \<Rightarrow> string \<Rightarrow> int \<Rightarrow> error + result_row" where
  "calculate_double cfg now employee_id income =
     (case calc_social_insurance_money cfg income of
        Inl e \<Rightarrow> Inl e
      | Inr m \<Rightarrow>
          (let social_insurance_money = format_2f m
           in case calc_income_tax_and_remain_double cfg income of
                Inl e \<Rightarrow> Inl e
              | Inr (tax, remain) \<Rightarrow>
                  Inr \<lparr>row_employee_id = employee_id, row_income = income,
                       row_social_insurance_money = social_insurance_money,
                       row_tax = tax, row_remain = remain, row_timestamp = now\<rparr>))"

subsection \<open>The worker process\<close>

text \<open>
  \<open>IncomeTaxCalculator.run\<close> on the records it takes from the user-data queue, in
  order; \<open>clock k\<close> is the wall clock at the \<open>k\<close>-th record. The result is the rows
  put on the export queue and how the process ended: \<open>None\<close> is the \<^verbatim>\<open>return\<close> on
  \<^verbatim>\<open>queue.Empty\<close>, \<open>Some e\<close> the \<^verbatim>\<open>exit()\<close> inside \<open>calculate\<close>, after which
  nothing more is taken or put.
\<close>

fun calculator_run ::
  "config \<Rightarrow> (nat \<Rightarrow> string) \<Rightarrow> nat \<Rightarrow> (string \<times> int) list \<Rightarrow> error option \<times> result_row list" where
  "calculator_run cfg clock k [] = (None, [])"
| "calculator_run cfg clock k ((employee_id, income) # rest) =
     (case calculate cfg (clock k) employee_id income of
        Inl e \<Rightarrow> (Some e, [])
      | Inr result \<Rightarrow>
          (case calculator_run cfg clock (Suc k) rest of
             (end, results) \<Rightarrow> (end, result # results)))"

subsection \<open>The source process\<close>

text \<open>
  \<^verbatim>\<open>str.strip\<close> and \<^verbatim>\<open>str.split(',')\<close> on strings of 8-bit characters; the white
  space is the ASCII white space of Python. The white space beyond ASCII that
  \<^verbatim>\<open>str.strip\<close> also removes (U+0085, U+00A0 and others) is an ordinary character
  here. The lines are the elements of \<^verbatim>\<open>f.readlines()\<close>.
\<close>

definition is_space :: "char \<Rightarrow> bool" where
  "is_space c \<longleftrightarrow> c \<in> set [CHR '' '', CHR 0x09, CHR 0x0A, CHR 0x0B, CHR 0x0C, CHR 0x0D,
                            CHR 0x1C, CHR 0x1D, CHR 0x1E, CHR 0x1F]"

definition strip :: "string \<Rightarrow> string" where
  "strip s = rev (dropWhile is_space (rev (dropWhile is_space s)))"

fun split :: "char \<Rightarrow> string \<Rightarrow> string list" where
  "split sep [] = [[]]"
| "split sep (c # cs) =
     (if c = sep then [] # split sep cs
      else (case split sep cs of [] \<Rightarrow> [[c]] | w # ws \<Rightarrow> (c # w) # ws))"

text \<open>
  \<^verbatim>\<open>int(income_string)\<close> in base 10: white space around, an optional sign, then
  ASCII decimal digits, where single underscores may stand between digits. \<open>None\<close>
  is \<^verbatim>\<open>ValueError\<close>. The decimal digits of other scripts, which \<^verbatim>\<open>int\<close> accepts,
  and the limit of 4300 digits of recent versions of Python are not modelled.
\<close>

definition is_digit :: "char \<Rightarrow> bool" where
  "is_digit c \<longleftrightarrow> c \<in> set ''0123456789''"

definition digit_val :: "char \<Rightarrow> nat" where
  "digit_val c = length (takeWhile (\<lambda>d. d \<noteq> c) ''0123456789'')"

fun digits_ok :: "string \<Rightarrow> bool" where
  "digits_ok [] = False"
| "digits_ok [c] = is_digit c"
| "digits_ok (c # d # cs) =
     (is_digit c \<and> (if d = CHR ''_'' then digits_ok cs else digits_ok (d # cs)))"

definition digits_value :: "string \<Rightarrow> nat" where
  "digits_value s = foldl (\<lambda>n c. 10 * n + digit_val c) 0 (filter is_digit s)"

definition py_int :: "string \<Rightarrow> int option" where
  "py_int s =
     (let t = strip s;
          (negative, body) =
            (case t of
               [] \<Rightarrow> (False, t)
             | c # cs \<Rightarrow>
                 if c = CHR ''-'' then (True, cs)
                 else if c = CHR ''+'' then (False, cs)
                 else (False, t))
      in if digits_ok body
         then Some (if negative then - int (digits_value body) else int (digits_value body))
         else None)"

text \<open>
  One pass of the loop body of \<open>_read_users_data\<close>, then the loop over the lines of the
  file, which appends to \<open>userdata\<close> and stops at the first error.
\<close>

definition parse_line :: "string \<Rightarrow> error + string \<times> int" where
  "parse_line line =
     (case split CHR '','' (strip line) of
        [employee_id, income_string] \<Rightarrow>
          (case py_int income_string of
             None \<Rightarrow> Inl ParameterError
           | Some income \<Rightarrow> Inr (employee_id, income))
      | _ \<Rightarrow> Inl UnpackValueError)"

fun read_lines :: "string list \<Rightarrow> (string \<times> int) list \<Rightarrow> error + (string \<times> int) list" where
  "read_lines [] userdata = Inr userdata"
| "read_lines (line # rest) userdata =
     (case parse_line line of
        Inl e \<Rightarrow> Inl e
      | Inr item \<Rightarrow> read_lines rest (userdata @ [item]))"

definition read_users_data :: "string list \<Rightarrow> error + (string \<times> int) list" where
  "read_users_data lines = read_lines lines []"

text \<open>
  \<open>UserData.run\<close>: the whole file is read and parsed first, then every item is put on
  the queue. The result is how the process ended and the queue after it.
\<close>

definition userdata_run ::
  "string list \<Rightarrow> (string \<times> int) list \<Rightarrow> error option \<times> (string \<times> int) list" where
  "userdata_run lines userdata_queue =
     (case read_users_data lines of
        Inl e \<Rightarrow> (Some e, userdata_queue)
      | Inr items \<Rightarrow> (None, userdata_queue @ items))"

subsection \<open>The progressive tax of the specification\<close>

text \<open>
  Section 3 of the specification, from its words: the bracket of an amount is the one
  with the greatest lower bound strictly less than the amount, and there is none when
  no lower bound is. The choice looks at every bracket and does not depend on the
  order of the table.
\<close>

fun greatest_bracket :: "IncomeTaxQuickLookupItem list \<Rightarrow> IncomeTaxQuickLookupItem option" where
  "greatest_bracket [] = None"
| "greatest_bracket (b # bs) =
     (case greatest_bracket bs of
        None \<Rightarrow> Some b
      | Some a \<Rightarrow> if start_point a < start_point b then Some b else Some a)"

definition bracket_of ::
  "IncomeTaxQuickLookupItem list \<Rightarrow> rat \<Rightarrow> IncomeTaxQuickLookupItem option" where
  "bracket_of table t = greatest_bracket (filter (\<lambda>b. start_point b < t) table)"

text \<open>
  Section 4.1 of the specification, from its words: the tax of every bracket below the
  bracket of the amount is its span times its rate, the span reaching from its own
  lower bound up to the lower bound of the next bracket above; the bracket of the
  amount is taxed on the part of the amount above its lower bound.
  \<open>lower_brackets_tax upper bs\<close> walks the lower brackets downwards, \<open>upper\<close> being the
  lower bound of the bracket just above.
\<close>

fun lower_brackets_tax :: "rat \<Rightarrow> IncomeTaxQuickLookupItem list \<Rightarrow> rat" where
  "lower_brackets_tax upper [] = 0"
| "lower_brackets_tax upper (b # bs) =
     (upper - start_point b) * tax_rate b + lower_brackets_tax (start_point b) bs"

definition progressive_marginal_tax :: "IncomeTaxQuickLookupItem list \<Rightarrow> rat \<Rightarrow> rat" where
  "progressive_marginal_tax table t =
     (case bracket_of table t of
        None \<Rightarrow> 0
      | Some item \<Rightarrow>
          (t - start_point item) * tax_rate item +
          lower_brackets_tax (start_point item)
            (filter (\<lambda>b. start_point b < start_point item) table))"

text \<open>
  The cross-check of section 8, bracket by bracket and without choosing any bracket:
  every bracket taxes, at its rate, the part of the amount that lies between its lower
  bound and the lower bound of the bracket above (\<open>None\<close> above the highest bracket).
\<close>

fun bracket_by_bracket_tax ::
  "rat option \<Rightarrow> IncomeTaxQuickLookupItem list \<Rightarrow> rat \<Rightarrow> rat" where
  "bracket_by_bracket_tax upper [] t = 0"
| "bracket_by_bracket_tax upper (b # bs) t =
     tax_rate b * max 0 ((case upper of None \<Rightarrow> t | Some u \<Rightarrow> min t u) - start_point b) +
     bracket_by_bracket_tax (Some (start_point b)) bs t"

subsection \<open>Lines that do not parse\<close>

text \<open>
  Sections 4.4 and 7 of the specification, from their words: a line fails to parse
  when it has not exactly two fields or when its income field is no integer.
\<close>

definition bad_line :: "string \<Rightarrow> bool" where
  "bad_line line \<longleftrightarrow>
     (let fields = split CHR '','' (strip line)
      in length fields \<noteq> 2 \<or> py_int (fields ! 1) = None)"

subsection \<open>Inputs to run the program on\<close>

text \<open>
  Floor 3000, ceiling 20000 and six rates that add up to 0.105, the configuration of
  the scenarios of section 8 of the specification; the same without its ceiling, and
  with a rate that is no number; a clock that always shows the same time.
\<close>

definition example_config :: config where
  "example_config =
     [''JiShuL'' \<mapsto> Numeric 3000, ''JiShuH'' \<mapsto> Numeric 20000,
      ''YangLao'' \<mapsto> Numeric (8 / 100), ''YiLiao'' \<mapsto> Numeric (2 / 100),
      ''ShiYe'' \<mapsto> Numeric (5 / 1000), ''GongShang'' \<mapsto> Numeric 0,
      ''ShengYu'' \<mapsto> Numeric 0, ''GongJiJin'' \<mapsto> Numeric 0]"

definition config_without_ceiling :: config where
  "config_without_ceiling = example_config(''JiShuH'' := None)"

definition config_with_bad_rate :: config where
  "config_with_bad_rate = example_config(''YiLiao'' \<mapsto> NonNumeric)"

definition example_clock :: "nat \<Rightarrow> string" where
  "example_clock k = ''2026-01-01 09:00:00''"

section \<open>Theorems\<close>

subsection \<open>Evaluation lemmas\<close>

lemma str_nat_small: "n < 10 \<Longrightarrow> str_nat n = [digit_char n]"
  by (simp add: str_nat.simps)

lemma str_nat_big: "\<not> n < 10 \<Longrightarrow> str_nat n = str_nat (n div 10) @ [digit_char n]"
  by (subst str_nat.simps) simp

lemmas format_2f_eval =
  format_2f_def round_half_even_def str_nat_small str_nat_big digit_char_def

lemmas table_eval =
  INCOME_TAX_QUICK_LOOKUP_TABLE_def IncomeTaxQuickLookupItem_new_def

lemma format_2f_zero: "format_2f 0 = ''0.00''"
  by (simp add: format_2f_eval)

lemma example_config_low: "social_insurance_baseline_low example_config = Inr 3000"
  by (simp add: social_insurance_baseline_low_def get_config_def example_config_def)

lemma example_config_high: "social_insurance_baseline_high example_config = Inr 20000"
  by (simp add: social_insurance_baseline_high_def get_config_def example_config_def)

lemma example_config_rate: "social_insurance_total_rate example_config = Inr (105 / 1000)"
  by (simp add: social_insurance_total_rate_def rate_keys_def get_config_def example_config_def)

subsection \<open>Social insurance\<close>

lemma calc_social_insurance_money_resolved:
  assumes "social_insurance_baseline_low cfg = Inr lo"
    and "social_insurance_baseline_high cfg = Inr hi"
    and "social_insurance_total_rate cfg = Inr rate"
  shows "calc_social_insurance_money cfg income =
    Inr (if of_int income < lo then lo * rate
         else if of_int income > hi then hi * rate
         else of_int income * rate)"
  using assms by (simp add: calc_social_insurance_money_def)

text \<open>
  Claim C3. When the configuration resolves to a floor \<open>lo\<close>, a ceiling \<open>hi\<close> with
  \<open>lo \<le> hi\<close> and a combined rate, the insurance withheld is the income clamped to
  \<open>[lo, hi]\<close> times the rate: \<open>lo * rate\<close> below the floor, \<open>hi * rate\<close> above the
  ceiling, \<open>income * rate\<close> in between. The bounds \<open>0 \<le> income\<close>, \<open>0 \<le> lo\<close> and
  \<open>0 \<le> rate\<close> of the claim are not needed.
\<close>

theorem insurance_is_clamped_base_times_rate:
  assumes "social_insurance_baseline_low cfg = Inr lo"
    and "social_insurance_baseline_high cfg = Inr hi"
    and "social_insurance_total_rate cfg = Inr rate"
    and "lo \<le> hi"
  shows "calc_social_insurance_money cfg income = Inr (clamp (of_int income) lo hi * rate)
    \<and> (of_int income < lo \<longrightarrow> calc_social_insurance_money cfg income = Inr (lo * rate))
    \<and> (of_int income > hi \<longrightarrow> calc_social_insurance_money cfg income = Inr (hi * rate))
    \<and> (lo \<le> of_int income \<and> of_int income \<le> hi \<longrightarrow>
          calc_social_insurance_money cfg income = Inr (of_int income * rate))"
  using assms(4)
  by (auto simp: calc_social_insurance_money_resolved [OF assms(1-3)] clamp_def max_def min_def)

theorem insurance_is_clamped_base_times_rate_witness:
  "social_insurance_baseline_low example_config = Inr 3000
   \<and> social_insurance_baseline_high example_config = Inr 20000
   \<and> social_insurance_total_rate example_config = Inr (105 / 1000)
   \<and> (3000 :: rat) \<le> 20000
   \<and> calc_social_insurance_money example_config 2000 = Inr 315
   \<and> calc_social_insurance_money example_config 10000 = Inr 1050
   \<and> calc_social_insurance_money example_config 50000 = Inr 2100"
proof -
  have le: "(3000 :: rat) \<le> 20000" by simp
  note inst = insurance_is_clamped_base_times_rate
    [OF example_config_low example_config_high example_config_rate le]
  show ?thesis
    using inst [of 2000] inst [of 10000] inst [of 50000]
    by (simp add: example_config_low example_config_high example_config_rate clamp_def)
qed

subsection \<open>The bracket lookup\<close>

lemma lookup_item_Some:
  "lookup_item table t = Some item \<Longrightarrow> item \<in> set table \<and> start_point item < t"
  by (induction table) (auto split: if_splits)

lemma lookup_item_None:
  "lookup_item table t = None \<longleftrightarrow> (\<forall>b \<in> set table. t \<le> start_point b)"
  by (induction table) auto

text \<open>In a table in strictly descending order the scan returns the greatest lower bound.\<close>

lemma lookup_item_greatest:
  assumes "sorted_wrt (\<lambda>a b. start_point b < start_point a) table"
    and "lookup_item table t = Some item" and "b \<in> set table" and "start_point b < t"
  shows "start_point b \<le> start_point item"
  using assms
  by (induction table) (auto split: if_splits dest: lookup_item_Some)

lemma sorted_start_point_inj:
  "sorted_wrt (\<lambda>a b. start_point b < start_point a) table \<Longrightarrow> a \<in> set table \<Longrightarrow>
   b \<in> set table \<Longrightarrow> start_point a = start_point b \<Longrightarrow> a = b"
  by (induction table) auto

lemma table_sorted:
  "sorted_wrt (\<lambda>a b. start_point b < start_point a) INCOME_TAX_QUICK_LOOKUP_TABLE"
  by (simp add: table_eval)

lemma table_last:
  "IncomeTaxQuickLookupItem_new 0 (3 / 100) 0 \<in> set INCOME_TAX_QUICK_LOOKUP_TABLE"
  by (simp add: INCOME_TAX_QUICK_LOOKUP_TABLE_def)

lemma lookup_item_positive:
  assumes "0 < t"
  shows "\<exists>item. lookup_item INCOME_TAX_QUICK_LOOKUP_TABLE t = Some item"
proof (cases "lookup_item INCOME_TAX_QUICK_LOOKUP_TABLE t")
  case None
  then have "t \<le> start_point (IncomeTaxQuickLookupItem_new 0 (3 / 100) 0)"
    using table_last by (simp add: lookup_item_None)
  with assms show ?thesis by (simp add: IncomeTaxQuickLookupItem_new_def)
qed simp

lemma lookup_item_nonpositive:
  "t \<le> 0 \<Longrightarrow> lookup_item INCOME_TAX_QUICK_LOOKUP_TABLE t = None"
  by (simp add: table_eval)

lemma boundary_lower:
  "Suc i < length INCOME_TAX_QUICK_LOOKUP_TABLE \<Longrightarrow>
     lookup_item INCOME_TAX_QUICK_LOOKUP_TABLE (start_point (INCOME_TAX_QUICK_LOOKUP_TABLE ! i)) =
     Some (INCOME_TAX_QUICK_LOOKUP_TABLE ! Suc i)"
  by (simp add: table_eval less_Suc_eq numeral_eq_Suc) (elim disjE; simp)

text \<open>
  Claim C2. The table is in strictly descending order of \<open>start_point\<close>. For a taxable
  amount \<open>t > 0\<close> the loop selects an item of the table whose \<open>start_point\<close> is strictly
  below \<open>t\<close> and is the greatest such; it is the only item with that property. An amount
  equal to the \<open>start_point\<close> of an item selects the next lower item.
\<close>

theorem lookup_selects_greatest_lower_bound:
  assumes "0 < t"
  shows "sorted_wrt (\<lambda>a b. start_point b < start_point a) INCOME_TAX_QUICK_LOOKUP_TABLE \<and>
    (\<exists>item. lookup_item INCOME_TAX_QUICK_LOOKUP_TABLE t = Some item \<and>
       item \<in> set INCOME_TAX_QUICK_LOOKUP_TABLE \<and> start_point item < t \<and>
       (\<forall>b \<in> set INCOME_TAX_QUICK_LOOKUP_TABLE.
          start_point b < t \<longrightarrow> start_point b \<le> start_point item) \<and>
       (\<forall>b \<in> set INCOME_TAX_QUICK_LOOKUP_TABLE.
          start_point b < t \<and>
          (\<forall>c \<in> set INCOME_TAX_QUICK_LOOKUP_TABLE.
             start_point c < t \<longrightarrow> start_point c \<le> start_point b)
          \<longrightarrow> b = item)) \<and>
    (\<forall>i. Suc i < length INCOME_TAX_QUICK_LOOKUP_TABLE \<longrightarrow>
       lookup_item INCOME_TAX_QUICK_LOOKUP_TABLE (start_point (INCOME_TAX_QUICK_LOOKUP_TABLE ! i)) =
       Some (INCOME_TAX_QUICK_LOOKUP_TABLE ! Suc i))"
proof -
  let ?T = INCOME_TAX_QUICK_LOOKUP_TABLE
  from lookup_item_positive [OF assms] obtain item
    where sel: "lookup_item ?T t = Some item" ..
  have mem: "item \<in> set ?T" and below: "start_point item < t"
    using lookup_item_Some [OF sel] by simp_all
  have greatest: "start_point b \<le> start_point item"
    if "b \<in> set ?T" "start_point b < t" for b
    using lookup_item_greatest [OF table_sorted sel that] .
  have unique: "b = item"
    if b: "b \<in> set ?T" "start_point b < t"
      and max: "\<forall>c \<in> set ?T. start_point c < t \<longrightarrow> start_point c \<le> start_point b" for b
  proof -
    have "start_point item \<le> start_point b" using max mem below by blast
    moreover have "start_point b \<le> start_point item" using greatest b by blast
    ultimately show ?thesis
      using sorted_start_point_inj [OF table_sorted b(1) mem] by simp
  qed
  show ?thesis
    using table_sorted sel mem below greatest unique boundary_lower by blast
qed

theorem lookup_selects_greatest_lower_bound_witness:
  "(0 :: rat) < 4500
   \<and> lookup_item INCOME_TAX_QUICK_LOOKUP_TABLE 4500 =
       Some (IncomeTaxQuickLookupItem_new 1500 (1 / 10) 105)
   \<and> lookup_item INCOME_TAX_QUICK_LOOKUP_TABLE (start_point (INCOME_TAX_QUICK_LOOKUP_TABLE ! 4)) =
       Some (INCOME_TAX_QUICK_LOOKUP_TABLE ! 5)"
proof -
  have pos: "(0 :: rat) < 4500" by simp
  show ?thesis
    using lookup_selects_greatest_lower_bound [OF pos]
    by (simp add: table_eval)
qed

subsection \<open>The quick subtractor\<close>

text \<open>On this table the loop of the program finds the bracket of the amount.\<close>

lemma bracket_of_table:
  "bracket_of INCOME_TAX_QUICK_LOOKUP_TABLE t = lookup_item INCOME_TAX_QUICK_LOOKUP_TABLE t"
  by (simp add: bracket_of_def table_eval)

lemma quick_subtractor_identity:
  "item \<in> set INCOME_TAX_QUICK_LOOKUP_TABLE \<Longrightarrow>
   t * tax_rate item - quick_subtractor item =
   (t - start_point item) * tax_rate item +
     lower_brackets_tax (start_point item)
       (filter (\<lambda>b. start_point b < start_point item) INCOME_TAX_QUICK_LOOKUP_TABLE)"
  by (auto simp: table_eval algebra_simps)

lemma quick_tax_progressive:
  "quick_tax INCOME_TAX_QUICK_LOOKUP_TABLE t =
   progressive_marginal_tax INCOME_TAX_QUICK_LOOKUP_TABLE t"
proof (cases "lookup_item INCOME_TAX_QUICK_LOOKUP_TABLE t")
  case None
  then show ?thesis
    by (simp add: quick_tax_def progressive_marginal_tax_def bracket_of_table)
next
  case (Some item)
  then have "item \<in> set INCOME_TAX_QUICK_LOOKUP_TABLE"
    by (simp add: lookup_item_Some)
  from quick_subtractor_identity [OF this, of t] show ?thesis
    using Some by (simp add: quick_tax_def progressive_marginal_tax_def bracket_of_table)
qed

lemma quick_tax_ramps:
  "quick_tax INCOME_TAX_QUICK_LOOKUP_TABLE t =
     3 / 100 * max 0 t + 7 / 100 * max 0 (t - 1500) + 10 / 100 * max 0 (t - 4500) +
     5 / 100 * max 0 (t - 9000) + 5 / 100 * max 0 (t - 35000) + 5 / 100 * max 0 (t - 55000) +
     10 / 100 * max 0 (t - 80000)"
  by (auto simp: quick_tax_def table_eval max_def field_simps)

lemma quick_tax_bracket_by_bracket:
  "quick_tax INCOME_TAX_QUICK_LOOKUP_TABLE t =
   bracket_by_bracket_tax None INCOME_TAX_QUICK_LOOKUP_TABLE t"
  by (subst quick_tax_ramps) (auto simp: table_eval max_def min_def field_simps)

text \<open>
  Claim C1. For a taxable amount \<open>t > 0\<close> the loop selects the bracket of \<open>t\<close>: the
  item with the greatest lower bound strictly below \<open>t\<close>. The tax the program computes,
  \<open>t * tax_rate - quick_subtractor\<close> of that item, is the progressive tax of \<open>t\<close>: the
  spans of all brackets below the bracket of \<open>t\<close> at their rates plus the part of \<open>t\<close>
  above its lower bound at its rate. It is also the sum, over all brackets, of the
  part of \<open>t\<close> inside the bracket at the rate of the bracket. Neither sum is given the
  item the loop selects.
\<close>

theorem quick_subtractor_is_progressive_tax:
  assumes "0 < t"
  shows "\<exists>item. lookup_item INCOME_TAX_QUICK_LOOKUP_TABLE t = Some item \<and>
     bracket_of INCOME_TAX_QUICK_LOOKUP_TABLE t = Some item \<and>
     item \<in> set INCOME_TAX_QUICK_LOOKUP_TABLE \<and> start_point item < t \<and>
     (\<forall>b \<in> set INCOME_TAX_QUICK_LOOKUP_TABLE.
        start_point b < t \<longrightarrow> start_point b \<le> start_point item) \<and>
     quick_tax INCOME_TAX_QUICK_LOOKUP_TABLE t = t * tax_rate item - quick_subtractor item \<and>
     progressive_marginal_tax INCOME_TAX_QUICK_LOOKUP_TABLE t =
       (t - start_point item) * tax_rate item +
       lower_brackets_tax (start_point item)
         (filter (\<lambda>b. start_point b < start_point item) INCOME_TAX_QUICK_LOOKUP_TABLE) \<and>
     t * tax_rate item - quick_subtractor item =
       progressive_marginal_tax INCOME_TAX_QUICK_LOOKUP_TABLE t \<and>
     t * tax_rate item - quick_subtractor item =
       bracket_by_bracket_tax None INCOME_TAX_QUICK_LOOKUP_TABLE t"
proof -
  let ?T = INCOME_TAX_QUICK_LOOKUP_TABLE
  from lookup_item_positive [OF assms] obtain item
    where sel: "lookup_item ?T t = Some item" ..
  have mem: "item \<in> set ?T" and below: "start_point item < t"
    using lookup_item_Some [OF sel] by simp_all
  have greatest: "\<forall>b \<in> set ?T. start_point b < t \<longrightarrow> start_point b \<le> start_point item"
    using lookup_item_greatest [OF table_sorted sel] by blast
  have quick: "quick_tax ?T t = t * tax_rate item - quick_subtractor item"
    using sel by (simp add: quick_tax_def)
  have spec: "bracket_of ?T t = Some item"
    using sel by (simp add: bracket_of_table)
  then have unfolded: "progressive_marginal_tax ?T t =
       (t - start_point item) * tax_rate item +
       lower_brackets_tax (start_point item)
         (filter (\<lambda>b. start_point b < start_point item) ?T)"
    by (simp add: progressive_marginal_tax_def)
  have prog: "t * tax_rate item - quick_subtractor item = progressive_marginal_tax ?T t"
    using quick quick_tax_progressive [of t] by simp
  have each: "t * tax_rate item - quick_subtractor item = bracket_by_bracket_tax None ?T t"
    using quick quick_tax_bracket_by_bracket [of t] by simp
  show ?thesis
    using sel spec mem below greatest quick unfolded prog each by blast
qed

theorem quick_subtractor_is_progressive_tax_witness:
  "(0 :: rat) < 100000
   \<and> quick_tax INCOME_TAX_QUICK_LOOKUP_TABLE 100000 = 31495
   \<and> progressive_marginal_tax INCOME_TAX_QUICK_LOOKUP_TABLE 100000 = 31495
   \<and> bracket_by_bracket_tax None INCOME_TAX_QUICK_LOOKUP_TABLE 100000 = 31495
   \<and> bracket_of INCOME_TAX_QUICK_LOOKUP_TABLE 100000 =
       Some (IncomeTaxQuickLookupItem_new 80000 (45 / 100) 13505)"
proof -
  have pos: "(0 :: rat) < 100000" by simp
  show ?thesis
    using quick_subtractor_is_progressive_tax [OF pos]
    by (simp add: table_eval quick_tax_def progressive_marginal_tax_def bracket_of_def)
qed

subsection \<open>Tax and remainder\<close>

lemma calc_income_tax_and_remain_unrounded:
  "calc_income_tax_and_remain cfg income =
     (case unrounded_tax_and_remain cfg income of
        Inl e \<Rightarrow> Inl e
      | Inr (tax, remain) \<Rightarrow> Inr (format_2f tax, format_2f remain))"
  by (simp add: calc_income_tax_and_remain_def unrounded_tax_and_remain_def quick_tax_def
      Let_def format_2f_zero split: sum.splits option.splits)

lemma calculate_resolved:
  assumes "calc_social_insurance_money cfg income = Inr m"
  shows "calculate cfg now employee_id income =
     (let real_income = of_int income - m;
          tax = quick_tax INCOME_TAX_QUICK_LOOKUP_TABLE (real_income - INCOME_TAX_START_POINT)
      in Inr \<lparr>row_employee_id = employee_id, row_income = income,
              row_social_insurance_money = format_2f m,
              row_tax = format_2f tax, row_remain = format_2f (real_income - tax),
              row_timestamp = now\<rparr>)"
  using assms
  by (simp add: calculate_def calc_income_tax_and_remain_unrounded
      unrounded_tax_and_remain_def Let_def)



subsection \<open>The scenarios of the specification\<close>

lemma quick_tax_5450: "quick_tax INCOME_TAX_QUICK_LOOKUP_TABLE 5450 = 535"
  by (simp add: quick_tax_def table_eval)

lemma quick_tax_negative: "quick_tax INCOME_TAX_QUICK_LOOKUP_TABLE (- 1815) = 0"
  by (simp add: quick_tax_def table_eval)

lemma quick_tax_44400: "quick_tax INCOME_TAX_QUICK_LOOKUP_TABLE 44400 = 10565"
  by (simp add: quick_tax_def table_eval)

lemma format_2f_scenarios:
  "format_2f 1050 = ''1050.00''" "format_2f 535 = ''535.00''" "format_2f 8415 = ''8415.00''"
  "format_2f 315 = ''315.00''" "format_2f 1685 = ''1685.00''"
  "format_2f 2100 = ''2100.00''" "format_2f 10565 = ''10565.00''"
  "format_2f 37335 = ''37335.00''"
  by (simp_all add: format_2f_eval)

text \<open>
  Claim C5. With floor 3000, ceiling 20000 and combined rate 0.105, the rows for the
  incomes 10000, 2000 and 50000 carry insurance, tax and remainder
  1050.00 / 535.00 / 8415.00, 315.00 / 0.00 / 1685.00 and 2100.00 / 10565.00 / 37335.00.
\<close>

theorem specification_scenarios:
  assumes "social_insurance_baseline_low cfg = Inr 3000"
    and "social_insurance_baseline_high cfg = Inr 20000"
    and "social_insurance_total_rate cfg = Inr (105 / 1000)"
  shows "calculate cfg now employee_id 10000 =
           Inr \<lparr>row_employee_id = employee_id, row_income = 10000,
                row_social_insurance_money = ''1050.00'', row_tax = ''535.00'',
                row_remain = ''8415.00'', row_timestamp = now\<rparr>
    \<and> calculate cfg now employee_id 2000 =
           Inr \<lparr>row_employee_id = employee_id, row_income = 2000,
                row_social_insurance_money = ''315.00'', row_tax = ''0.00'',
                row_remain = ''1685.00'', row_timestamp = now\<rparr>
    \<and> calculate cfg now employee_id 50000 =
           Inr \<lparr>row_employee_id = employee_id, row_income = 50000,
                row_social_insurance_money = ''2100.00'', row_tax = ''10565.00'',
                row_remain = ''37335.00'', row_timestamp = now\<rparr>"
proof -
  have a: "calc_social_insurance_money cfg 10000 = Inr 1050"
    by (simp add: calc_social_insurance_money_resolved [OF assms])
  have b: "calc_social_insurance_money cfg 2000 = Inr 315"
    by (simp add: calc_social_insurance_money_resolved [OF assms])
  have c: "calc_social_insurance_money cfg 50000 = Inr 2100"
    by (simp add: calc_social_insurance_money_resolved [OF assms])
  have "calculate cfg now employee_id 10000 =
           Inr \<lparr>row_employee_id = employee_id, row_income = 10000,
                row_social_insurance_money = ''1050.00'', row_tax = ''535.00'',
                row_remain = ''8415.00'', row_timestamp = now\<rparr>"
    by (simp add: calculate_resolved [OF a] INCOME_TAX_START_POINT_def quick_tax_5450
        format_2f_scenarios)
  moreover have "calculate cfg now employee_id 2000 =
           Inr \<lparr>row_employee_id = employee_id, row_income = 2000,
                row_social_insurance_money = ''315.00'', row_tax = ''0.00'',
                row_remain = ''1685.00'', row_timestamp = now\<rparr>"
    by (simp add: calculate_resolved [OF b] INCOME_TAX_START_POINT_def quick_tax_negative
        format_2f_scenarios format_2f_zero)
  moreover have "calculate cfg now employee_id 50000 =
           Inr \<lparr>row_employee_id = employee_id, row_income = 50000,
                row_social_insurance_money = ''2100.00'', row_tax = ''10565.00'',
                row_remain = ''37335.00'', row_timestamp = now\<rparr>"
    by (simp add: calculate_resolved [OF c] INCOME_TAX_START_POINT_def quick_tax_44400
        format_2f_scenarios)
  ultimately show ?thesis by blast
qed

theorem specification_scenarios_witness:
  "social_insurance_baseline_low example_config = Inr 3000
   \<and> social_insurance_baseline_high example_config = Inr 20000
   \<and> social_insurance_total_rate example_config = Inr (105 / 1000)
   \<and> calculate example_config ''2026-01-01 09:00:00'' ''101'' 10000 =
        Inr \<lparr>row_employee_id = ''101'', row_income = 10000,
             row_social_insurance_money = ''1050.00'', row_tax = ''535.00'',
             row_remain = ''8415.00'', row_timestamp = ''2026-01-01 09:00:00''\<rparr>"
  using specification_scenarios [OF example_config_low example_config_high example_config_rate,
      of "''2026-01-01 09:00:00''" "''101''"]
  by (simp add: example_config_low example_config_high example_config_rate)

subsection \<open>Net pay grows with the income\<close>












subsection \<open>Negative incomes\<close>

lemma int_to_float_in_range:
  "\<bar>income\<bar> < 2 ^ 1024 - 2 ^ 970 \<Longrightarrow> int_to_float income = Inr (of_int income)"
  by (simp add: int_to_float_def)

lemma int_to_float_out_of_range:
  "\<not> \<bar>income\<bar> < 2 ^ 1024 - 2 ^ 970 \<Longrightarrow> int_to_float income = Inl OverflowError"
  by (simp add: int_to_float_def)

text \<open>Inside the range of doubles the two models of a record are the same function.\<close>

lemma calc_income_tax_and_remain_double_in_range:
  assumes "\<bar>income\<bar> < 2 ^ 1024 - 2 ^ 970"
  shows "calc_income_tax_and_remain_double cfg income = calc_income_tax_and_remain cfg income"
  by (simp add: calc_income_tax_and_remain_double_def calc_income_tax_and_remain_def
      int_to_float_in_range [OF assms] split: sum.splits)

lemma calculate_double_in_range:
  assumes "\<bar>income\<bar> < 2 ^ 1024 - 2 ^ 970"
  shows "calculate_double cfg now employee_id income = calculate cfg now employee_id income"
  by (simp add: calculate_double_def calculate_def
      calc_income_tax_and_remain_double_in_range [OF assms] split: sum.splits)

lemma calculate_double_out_of_range:
  assumes "calc_social_insurance_money cfg income = Inr m"
    and "\<not> \<bar>income\<bar> < 2 ^ 1024 - 2 ^ 970"
  shows "calculate_double cfg now employee_id income = Inl OverflowError"
  using assms(1)
  by (simp add: calculate_double_def calc_income_tax_and_remain_double_def
      int_to_float_out_of_range [OF assms(2)])

lemma ten_to_309_out_of_range: "\<not> \<bar>- (10 ^ 309) :: int\<bar> < 2 ^ 1024 - 2 ^ 970"
  by simp

text \<open>The record of a negative income in unbounded arithmetic.\<close>

lemma calculate_exact_on_negative_income:
  assumes "social_insurance_baseline_low cfg = Inr lo"
    and "social_insurance_baseline_high cfg = Inr hi"
    and "social_insurance_total_rate cfg = Inr rate"
    and "0 \<le> lo" and "0 \<le> rate" and "income < 0"
  shows "calc_social_insurance_money cfg income = Inr (lo * rate)"
    and "0 \<le> lo * rate"
    and "of_int income - lo * rate - INCOME_TAX_START_POINT \<le> 0"
    and "calculate cfg now employee_id income =
         Inr \<lparr>row_employee_id = employee_id, row_income = income,
              row_social_insurance_money = format_2f (lo * rate), row_tax = ''0.00'',
              row_remain = format_2f (of_int income - lo * rate), row_timestamp = now\<rparr>"
    and "of_int income - lo * rate < 0"
proof -
  note ins = calc_social_insurance_money_resolved [OF assms(1-3)]
  have below: "(of_int income :: rat) < lo"
    using assms(4,6) by (simp add: less_le_trans)
  show m: "calc_social_insurance_money cfg income = Inr (lo * rate)"
    using below by (simp add: ins)
  show nonneg: "0 \<le> lo * rate" using assms(4,5) by simp
  have "(of_int income :: rat) < 0" using assms(6) by simp
  with nonneg show real: "of_int income - lo * rate < 0" by linarith
  then show taxable: "of_int income - lo * rate - INCOME_TAX_START_POINT \<le> 0"
    by (simp add: INCOME_TAX_START_POINT_def)
  have "quick_tax INCOME_TAX_QUICK_LOOKUP_TABLE
          (of_int income - lo * rate - INCOME_TAX_START_POINT) = 0"
    by (simp add: quick_tax_def lookup_item_nonpositive [OF taxable])
  then show "calculate cfg now employee_id income =
         Inr \<lparr>row_employee_id = employee_id, row_income = income,
              row_social_insurance_money = format_2f (lo * rate), row_tax = ''0.00'',
              row_remain = format_2f (of_int income - lo * rate), row_timestamp = now\<rparr>"
    by (simp add: calculate_resolved [OF m] format_2f_zero)
qed

text \<open>
  Claim C10 fails as stated. The computation of a record is not total on every integer
  income: the income \<open>- 10 ^ 309\<close> is below the floor, the insurance is computed, and
  the subtraction \<^verbatim>\<open>income - social_insurance_money\<close> raises \<^verbatim>\<open>OverflowError\<close>,
  which nothing in \<open>calculate\<close> or in the worker catches.
\<close>

theorem calculate_total_counterexample:
  "calc_social_insurance_money example_config (- (10 ^ 309)) = Inr 315 \<and>
   calculate_double example_config ''2026-01-01 09:00:00'' ''101'' (- (10 ^ 309)) =
     Inl OverflowError"
proof -
  have "rat_of_int (- (10 ^ 309)) < 3000" by simp
  then have "calc_social_insurance_money example_config (- (10 ^ 309)) =
      Inr (3000 * (105 / 1000))"
    by (simp only: calc_social_insurance_money_resolved
        [OF example_config_low example_config_high example_config_rate] if_True)
  then have m: "calc_social_insurance_money example_config (- (10 ^ 309)) = Inr 315"
    by simp
  show ?thesis
    using m calculate_double_out_of_range [OF m ten_to_309_out_of_range] by simp
qed

text \<open>
  Claim C10, amended. With a resolved configuration the computation of a record
  returns a row for every integer income inside the range of doubles, that is of
  absolute value below \<open>2 ^ 1024 - 2 ^ 970\<close>, negative incomes included; outside that
  range it ends in \<open>OverflowError\<close>. When moreover floor and rate are not negative, a
  negative income inside the range is below the floor: the insurance is
  \<open>floor * rate\<close>, the taxable part is not positive, the tax is \<open>0.00\<close>, and the
  remainder is the formatted real income \<open>income - floor * rate\<close>, which is negative.
\<close>

theorem calculate_total_within_double_range:
  assumes "social_insurance_baseline_low cfg = Inr lo"
    and "social_insurance_baseline_high cfg = Inr hi"
    and "social_insurance_total_rate cfg = Inr rate"
    and "0 \<le> lo" and "0 \<le> rate"
  shows "(\<bar>income\<bar> < 2 ^ 1024 - 2 ^ 970 \<longrightarrow>
            (\<exists>row. calculate_double cfg now employee_id income = Inr row)) \<and>
    (\<not> \<bar>income\<bar> < 2 ^ 1024 - 2 ^ 970 \<longrightarrow>
            calculate_double cfg now employee_id income = Inl OverflowError) \<and>
    (income < 0 \<and> \<bar>income\<bar> < 2 ^ 1024 - 2 ^ 970 \<longrightarrow>
       calc_social_insurance_money cfg income = Inr (lo * rate) \<and>
       0 \<le> lo * rate \<and>
       of_int income - lo * rate - INCOME_TAX_START_POINT \<le> 0 \<and>
       calculate_double cfg now employee_id income =
         Inr \<lparr>row_employee_id = employee_id, row_income = income,
              row_social_insurance_money = format_2f (lo * rate), row_tax = ''0.00'',
              row_remain = format_2f (of_int income - lo * rate), row_timestamp = now\<rparr> \<and>
       of_int income - lo * rate < 0)"
proof -
  note ins = calc_social_insurance_money_resolved [OF assms(1-3)]
  have total: "\<exists>row. calculate_double cfg now employee_id income = Inr row"
    if "\<bar>income\<bar> < 2 ^ 1024 - 2 ^ 970"
    by (simp add: calculate_double_in_range [OF that] calculate_resolved [OF ins] Let_def)
  have overflow: "calculate_double cfg now employee_id income = Inl OverflowError"
    if "\<not> \<bar>income\<bar> < 2 ^ 1024 - 2 ^ 970"
    using calculate_double_out_of_range [OF ins that] .
  have negative:
    "calc_social_insurance_money cfg income = Inr (lo * rate) \<and>
       0 \<le> lo * rate \<and>
       of_int income - lo * rate - INCOME_TAX_START_POINT \<le> 0 \<and>
       calculate_double cfg now employee_id income =
         Inr \<lparr>row_employee_id = employee_id, row_income = income,
              row_social_insurance_money = format_2f (lo * rate), row_tax = ''0.00'',
              row_remain = format_2f (of_int income - lo * rate), row_timestamp = now\<rparr> \<and>
       of_int income - lo * rate < 0"
    if "income < 0" and range: "\<bar>income\<bar> < 2 ^ 1024 - 2 ^ 970"
    using calculate_exact_on_negative_income [OF assms that(1)]
    by (simp add: calculate_double_in_range [OF range])
  show ?thesis
    using total overflow negative by blast
qed

theorem calculate_total_within_double_range_witness:
  "social_insurance_baseline_low example_config = Inr 3000
   \<and> social_insurance_baseline_high example_config = Inr 20000
   \<and> social_insurance_total_rate example_config = Inr (105 / 1000)
   \<and> (0 :: rat) \<le> 3000 \<and> (0 :: rat) \<le> 105 / 1000
   \<and> (- 5 :: int) < 0 \<and> \<bar>- 5 :: int\<bar> < 2 ^ 1024 - 2 ^ 970
   \<and> calculate_double example_config ''2026-01-01 09:00:00'' ''101'' (- 5) =
        Inr \<lparr>row_employee_id = ''101'', row_income = - 5,
             row_social_insurance_money = ''315.00'', row_tax = ''0.00'',
             row_remain = ''-320.00'', row_timestamp = ''2026-01-01 09:00:00''\<rparr>"
proof -
  have h: "(0 :: rat) \<le> 3000" "(0 :: rat) \<le> 105 / 1000" by simp_all
  have f: "format_2f (- 320) = ''-320.00''" "format_2f 315 = ''315.00''"
    by (simp_all add: format_2f_eval)
  show ?thesis
    using calculate_total_within_double_range
      [OF example_config_low example_config_high example_config_rate h,
        of "- 5" "''2026-01-01 09:00:00''" "''101''"]
    by (simp add: example_config_low example_config_high example_config_rate f)
qed

subsection \<open>A line that does not parse\<close>

lemma parse_line_bad: "bad_line line \<longleftrightarrow> (\<exists>e. parse_line line = Inl e)"
  by (auto simp: bad_line_def parse_line_def Let_def split: list.splits option.splits)

lemma read_lines_bad:
  "line \<in> set lines \<Longrightarrow> parse_line line = Inl e \<Longrightarrow> \<exists>e'. read_lines lines acc = Inl e'"
  by (induction lines arbitrary: acc) (auto split: sum.splits)

lemmas parse_eval =
  bad_line_def parse_line_def strip_def is_space_def py_int_def is_digit_def
  digits_value_def digit_val_def

text \<open>
  Claim C7. When some line of the file is bad (not two fields, or an income that
  \<^verbatim>\<open>int\<close> refuses), \<open>_read_users_data\<close> fails, \<open>UserData.run\<close> ends with that error
  and leaves the queue as it found it: no record is put, the ones of the lines before
  the bad line included. A worker started on the queue of such a run produces no row.
\<close>

theorem bad_line_aborts_whole_batch:
  assumes "line \<in> set lines" and "bad_line line"
  shows "\<exists>e. read_users_data lines = Inl e \<and>
             userdata_run lines userdata_queue = (Some e, userdata_queue) \<and>
             calculator_run cfg clock 0 (snd (userdata_run lines [])) = (None, [])"
proof -
  from assms(2) obtain e0 where "parse_line line = Inl e0"
    by (auto simp: parse_line_bad)
  from read_lines_bad [OF assms(1) this] obtain e where "read_users_data lines = Inl e"
    by (auto simp: read_users_data_def)
  then show ?thesis by (simp add: userdata_run_def)
qed

theorem bad_line_aborts_whole_batch_witness:
  "''102,x'' \<in> set [''101,5000'', ''102,x'', ''103,7''] \<and> bad_line ''102,x''
   \<and> parse_line ''101,5000'' = Inr (''101'', 5000)
   \<and> userdata_run [''101,5000'', ''102,x'', ''103,7''] [] = (Some ParameterError, [])
   \<and> userdata_run [''101,5000'', ''103''] [] = (Some UnpackValueError, [])
   \<and> userdata_run [''101,5000'', ''103,7''] [] = (None, [(''101'', 5000), (''103'', 7)])"
proof -
  have mem: "''102,x'' \<in> set [''101,5000'', ''102,x'', ''103,7'']" by simp
  have bad: "bad_line ''102,x''" by (simp add: parse_eval)
  show ?thesis
    using bad_line_aborts_whole_batch [OF mem bad, of "[]" example_config example_clock]
    by (simp add: userdata_run_def read_users_data_def parse_eval)
qed

subsection \<open>A configuration that does not resolve\<close>

lemma get_config_error: "get_config cfg key = Inl e \<Longrightarrow> e = ParameterError"
  by (auto simp: get_config_def split: option.splits config_entry.splits)

lemma get_config_bad:
  "cfg key = None \<or> cfg key = Some NonNumeric \<Longrightarrow> get_config cfg key = Inl ParameterError"
  by (auto simp: get_config_def)

lemma get_configs_error: "get_configs cfg ks = Inl e \<Longrightarrow> e = ParameterError"
  by (induction ks arbitrary: e) (auto split: sum.splits dest: get_config_error)

lemma get_configs_bad:
  "key \<in> set ks \<Longrightarrow> get_config cfg key = Inl ParameterError \<Longrightarrow>
   get_configs cfg ks = Inl ParameterError"
  by (induction ks) (auto split: sum.splits dest: get_config_error)

lemma total_rate_error: "social_insurance_total_rate cfg = Inl e \<Longrightarrow> e = ParameterError"
  by (auto simp: social_insurance_total_rate_def split: sum.splits dest: get_configs_error)

lemma calc_social_insurance_money_error:
  "calc_social_insurance_money cfg income = Inl e \<Longrightarrow> e = ParameterError"
  by (auto simp: calc_social_insurance_money_def social_insurance_baseline_low_def
      social_insurance_baseline_high_def split: sum.splits if_splits
      dest: get_config_error total_rate_error)

lemma calc_social_insurance_money_bad_low:
  "get_config cfg ''JiShuL'' = Inl ParameterError \<Longrightarrow>
   calc_social_insurance_money cfg income = Inl ParameterError"
  by (simp add: calc_social_insurance_money_def social_insurance_baseline_low_def)

lemma calc_social_insurance_money_bad_rate:
  assumes "social_insurance_total_rate cfg = Inl ParameterError"
  shows "calc_social_insurance_money cfg income = Inl ParameterError"
proof (cases "calc_social_insurance_money cfg income")
  case (Inl e)
  then show ?thesis by (simp add: calc_social_insurance_money_error)
next
  case (Inr m)
  then show ?thesis
    using assms
    by (auto simp: calc_social_insurance_money_def split: sum.splits if_splits)
qed

lemma calc_social_insurance_money_bad_high:
  assumes "get_config cfg ''JiShuH'' = Inl ParameterError"
    and "social_insurance_baseline_low cfg = Inr lo" and "lo \<le> of_int income"
  shows "calc_social_insurance_money cfg income = Inl ParameterError"
  using assms
  by (simp add: calc_social_insurance_money_def social_insurance_baseline_high_def)

lemma calculate_bad:
  "calc_social_insurance_money cfg income = Inl ParameterError \<Longrightarrow>
   calculate cfg now employee_id income = Inl ParameterError"
  by (simp add: calculate_def)

lemma config_without_ceiling_low:
  "social_insurance_baseline_low config_without_ceiling = Inr 3000"
  by (simp add: social_insurance_baseline_low_def get_config_def example_config_def
      config_without_ceiling_def)

lemma config_without_ceiling_rate:
  "social_insurance_total_rate config_without_ceiling = Inr (105 / 1000)"
  by (simp add: social_insurance_total_rate_def rate_keys_def get_config_def
      example_config_def config_without_ceiling_def)

text \<open>
  Claim C8 fails as stated. The configuration is read key by key inside
  \<open>calc_social_insurance_money\<close>, that is, inside the computation of a record, and the
  ceiling is read only for an income that is not below the floor. With the ceiling
  missing, the record with income 2000 is computed and its row is put on the export
  queue, and the worker ends without error.
\<close>

theorem config_error_before_records_counterexample:
  "config_without_ceiling ''JiShuH'' = None \<and>
   calculator_run config_without_ceiling example_clock 0 [(''101'', 2000)] =
     (None, [\<lparr>row_employee_id = ''101'', row_income = 2000,
                row_social_insurance_money = ''315.00'', row_tax = ''0.00'',
                row_remain = ''1685.00'', row_timestamp = ''2026-01-01 09:00:00''\<rparr>])"
proof -
  have m: "calc_social_insurance_money config_without_ceiling 2000 = Inr 315"
    by (simp add: calc_social_insurance_money_def config_without_ceiling_low
        config_without_ceiling_rate)
  have "config_without_ceiling ''JiShuH'' = None"
    by (simp add: config_without_ceiling_def)
  then show ?thesis
    by (simp add: calculate_resolved [OF m] INCOME_TAX_START_POINT_def quick_tax_negative
        format_2f_scenarios format_2f_zero example_clock_def)
qed

text \<open>
  Claim C8, amended. When the floor key or one of the six rate keys is missing or no
  number, or when the ceiling key is and the income of the record is not below the
  floor, the computation of the record ends in \<open>ParameterError\<close> and the worker that
  takes the record ends with that error and has put no row on the export queue. The
  error arises inside the computation of the first record; a worker that takes no
  record ends without error.
\<close>

theorem config_error_raised_by_first_record:
  assumes "cfg key = None \<or> cfg key = Some NonNumeric"
    and "key \<in> set (''JiShuL'' # rate_keys) \<or>
         (key = ''JiShuH'' \<and> social_insurance_baseline_low cfg = Inr lo \<and> lo \<le> of_int income)"
  shows "calculate cfg (clock k) employee_id income = Inl ParameterError \<and>
         calculator_run cfg clock k ((employee_id, income) # rest) = (Some ParameterError, []) \<and>
         calculator_run cfg clock k [] = (None, [])"
proof -
  note bad = get_config_bad [of cfg key, OF assms(1)]
  from assms(2) consider "key = ''JiShuL''" | "key \<in> set rate_keys"
    | "key = ''JiShuH''" "social_insurance_baseline_low cfg = Inr lo" "lo \<le> of_int income"
    by auto
  then have "calc_social_insurance_money cfg income = Inl ParameterError"
  proof cases
    case 1
    with bad show ?thesis by (simp add: calc_social_insurance_money_bad_low)
  next
    case 2
    from get_configs_bad [OF 2 bad]
    have "social_insurance_total_rate cfg = Inl ParameterError"
      by (simp add: social_insurance_total_rate_def)
    then show ?thesis by (rule calc_social_insurance_money_bad_rate)
  next
    case 3
    with bad show ?thesis by (simp add: calc_social_insurance_money_bad_high)
  qed
  then show ?thesis by (simp add: calculate_bad)
qed

theorem config_error_raised_by_first_record_witness:
  "config_with_bad_rate ''YiLiao'' = Some NonNumeric
   \<and> ''YiLiao'' \<in> set (''JiShuL'' # rate_keys)
   \<and> calculator_run config_with_bad_rate example_clock 0 [(''101'', 2000), (''102'', 10000)] =
       (Some ParameterError, [])
   \<and> config_without_ceiling ''JiShuH'' = None
   \<and> social_insurance_baseline_low config_without_ceiling = Inr 3000
   \<and> (3000 :: rat) \<le> of_int 10000
   \<and> calculator_run config_without_ceiling example_clock 0 [(''102'', 10000)] =
       (Some ParameterError, [])"
proof -
  have a1: "config_with_bad_rate ''YiLiao'' = None \<or>
            config_with_bad_rate ''YiLiao'' = Some NonNumeric"
    by (simp add: config_with_bad_rate_def)
  have a2: "''YiLiao'' \<in> set (''JiShuL'' # rate_keys) \<or>
      (''YiLiao'' = ''JiShuH'' \<and> social_insurance_baseline_low config_with_bad_rate = Inr 0 \<and>
       (0 :: rat) \<le> of_int 2000)"
    by (simp add: rate_keys_def)
  have b1: "config_without_ceiling ''JiShuH'' = None \<or>
            config_without_ceiling ''JiShuH'' = Some NonNumeric"
    by (simp add: config_without_ceiling_def)
  have b2: "''JiShuH'' \<in> set (''JiShuL'' # rate_keys) \<or>
      (''JiShuH'' = ''JiShuH'' \<and> social_insurance_baseline_low config_without_ceiling = Inr 3000 \<and>
       (3000 :: rat) \<le> of_int 10000)"
    by (simp add: config_without_ceiling_low)
  show ?thesis
    using config_error_raised_by_first_record
        [OF a1 a2, of example_clock 0 "''101''" "[(''102'', 10000)]"]
      config_error_raised_by_first_record [OF b1 b2, of example_clock 0 "''102''" "[]"]
    by (simp add: config_with_bad_rate_def config_without_ceiling_def
        config_without_ceiling_low [unfolded config_without_ceiling_def] rate_keys_def)
qed

end
